theory Spec2Isabelle
  imports Complex_Main
begin

section \<open>HexSnake: board topology and the tick transition of src/App.tsx\<close>

text \<open>
  The embedding follows \<^verbatim>\<open>src/src/App.tsx\<close>. Coordinates, sides, the score and the
  immunity counter are JavaScript numbers that only ever hold integers; they are modelled as
  \<^typ>\<open>int\<close>. The two sources of nondeterminism of the tick callback, \<^verbatim>\<open>Math.random()\<close> and
  \<^verbatim>\<open>Date.now()\<close>, are parameters of the model, as is the module constant
  \<^verbatim>\<open>FIXED_WRAP_PAIR_INDEX\<close> (drawn once as \<^verbatim>\<open>Math.floor(Math.random() * 3)\<close>, so one of 0, 1, 2).
\<close>

subsection \<open>Data model (lines 4-47)\<close>

datatype Direction = RIGHT | DOWN_RIGHT | DOWN_LEFT | LEFT | UP_LEFT | UP_RIGHT

text \<open>The numeric value of an enum member, and the cast \<^verbatim>\<open>n as Direction\<close> of a number in 0..5.\<close>

fun dirIndex :: "Direction \<Rightarrow> nat" where
  "dirIndex RIGHT = 0"
| "dirIndex DOWN_RIGHT = 1"
| "dirIndex DOWN_LEFT = 2"
| "dirIndex LEFT = 3"
| "dirIndex UP_LEFT = 4"
| "dirIndex UP_RIGHT = 5"

definition asDirection :: "nat \<Rightarrow> Direction" where
  "asDirection n = [RIGHT, DOWN_RIGHT, DOWN_LEFT, LEFT, UP_LEFT, UP_RIGHT] ! n"

record HexCoord =
  q :: int
  r :: int

record SnakeSegment = HexCoord +
  side :: int

text \<open>
  The interface \<^verbatim>\<open>Food\<close> has the same shape as \<^verbatim>\<open>SnakeSegment\<close> (a \<^verbatim>\<open>HexCoord\<close> with a
  \<^verbatim>\<open>side\<close>); TypeScript types are structural, so one record serves both.
\<close>

type_synonym Food = SnakeSegment

record EatEffect =
  x :: real
  y :: real
  active :: bool
  timestamp :: int

record GameState =
  snake :: "SnakeSegment list"
  food :: Food
  direction :: Direction
  currentSide :: int
  score :: int
  gameOver :: bool
  isPlaying :: bool
  eatEffect :: "EatEffect option"
  wrapImmunity :: int

definition HEX_SIZE :: real where
  "HEX_SIZE = 10"

definition GRID_RADIUS :: int where
  "GRID_RADIUS = 15"

subsection \<open>Direction vectors and wrap edge pairs (lines 49-86)\<close>

definition DIRECTION_VECTORS :: "HexCoord list" where
  "DIRECTION_VECTORS =
     [\<lparr>q = 1, r = 0\<rparr>, \<lparr>q = 0, r = 1\<rparr>, \<lparr>q = - 1, r = 1\<rparr>,
      \<lparr>q = - 1, r = 0\<rparr>, \<lparr>q = 0, r = - 1\<rparr>, \<lparr>q = 1, r = - 1\<rparr>]"

record EdgePair =
  name :: string
  checks :: "(HexCoord \<Rightarrow> bool) list"

definition WRAP_EDGE_PAIRS :: "EdgePair list" where
  "WRAP_EDGE_PAIRS =
     [\<lparr>name = ''horizontal'',
       checks = [\<lambda>c. q c = - GRID_RADIUS, \<lambda>c. q c = GRID_RADIUS]\<rparr>,
      \<lparr>name = ''diagonal1'',
       checks = [\<lambda>c. r c = GRID_RADIUS, \<lambda>c. r c = - GRID_RADIUS]\<rparr>,
      \<lparr>name = ''diagonal2'',
       checks = [\<lambda>c. - q c - r c = GRID_RADIUS, \<lambda>c. - q c - r c = - GRID_RADIUS]\<rparr>]"

text \<open>
  In the functions below the first argument \<open>ix\<close> is the value of \<^verbatim>\<open>FIXED_WRAP_PAIR_INDEX\<close>.
\<close>

definition isWrapExit :: "nat \<Rightarrow> HexCoord \<Rightarrow> bool" where
  "isWrapExit ix coord = list_ex (\<lambda>check. check coord) (checks (WRAP_EDGE_PAIRS ! ix))"

definition isOnAnyEdge :: "HexCoord \<Rightarrow> bool" where
  "isOnAnyEdge coord =
     list_ex (\<lambda>pair. list_ex (\<lambda>check. check coord) (checks pair)) WRAP_EDGE_PAIRS"

subsection \<open>Cells of the board (lines 120-160, 246-260)\<close>

text \<open>
  \<^verbatim>\<open>hexToPixel\<close> computes in IEEE doubles; the model computes in the reals. Its result only
  fills the \<^verbatim>\<open>x\<close> and \<^verbatim>\<open>y\<close> fields of the eat effect.
\<close>

definition hexToPixel :: "int \<Rightarrow> int \<Rightarrow> real \<times> real" where
  "hexToPixel q0 r0 =
     (HEX_SIZE * (3 / 2 * real_of_int q0),
      HEX_SIZE * (sqrt 3 / 2 * real_of_int q0 + sqrt 3 * real_of_int r0))"

definition getValidHexCells :: "HexCoord list" where
  "getValidHexCells =
     concat (map (\<lambda>q0.
        (let r1 = max (- GRID_RADIUS) (- q0 - GRID_RADIUS);
             r2 = min GRID_RADIUS (- q0 + GRID_RADIUS)
         in map (\<lambda>r0. \<lparr>q = q0, r = r0\<rparr>) [r1..r2]))
       [- GRID_RADIUS..GRID_RADIUS])"

definition isSameCoord :: "'a HexCoord_scheme \<Rightarrow> 'b HexCoord_scheme \<Rightarrow> bool" where
  "isSameCoord a b = (q a = q b \<and> r a = r b)"

definition isOnSnake :: "'a HexCoord_scheme \<Rightarrow> int \<Rightarrow> SnakeSegment list \<Rightarrow> bool" where
  "isOnSnake coord sd snk = list_ex (\<lambda>segment. isSameCoord segment coord \<and> side segment = sd) snk"

definition getNextPosition :: "'a HexCoord_scheme \<Rightarrow> Direction \<Rightarrow> HexCoord" where
  "getNextPosition head dir =
     (let vector = DIRECTION_VECTORS ! dirIndex dir
      in \<lparr>q = q head + q vector, r = r head + r vector\<rparr>)"

definition isValidPosition :: "'a HexCoord_scheme \<Rightarrow> bool" where
  "isValidPosition coord =
     (\<bar>q coord\<bar> \<le> GRID_RADIUS \<and> \<bar>r coord\<bar> \<le> GRID_RADIUS \<and> \<bar>q coord + r coord\<bar> \<le> GRID_RADIUS)"

subsection \<open>Portal exits (lines 164-225)\<close>

text \<open>Lines 183-204: the mirror image of a cell across the axis of the active edge pair.\<close>

definition mirrorCoord :: "nat \<Rightarrow> 'a HexCoord_scheme \<Rightarrow> HexCoord" where
  "mirrorCoord ix coord =
     (let activeEdgePair = WRAP_EDGE_PAIRS ! ix
      in if name activeEdgePair = ''horizontal'' then \<lparr>q = - q coord, r = r coord\<rparr>
         else if name activeEdgePair = ''diagonal1'' then \<lparr>q = q coord, r = - r coord\<rparr>
         else \<lparr>q = - r coord, r = - q coord\<rparr>)"

text \<open>Lines 206-217: one step towards the centre when the cell is not on the board.\<close>

definition adjustToCenter :: "HexCoord \<Rightarrow> HexCoord" where
  "adjustToCenter newCoord =
     (if \<not> isValidPosition newCoord then
        (let centerVector =
               \<lparr>q = (if q newCoord > 0 then - 1 else (if q newCoord < 0 then 1 else 0)),
                r = (if r newCoord > 0 then - 1 else (if r newCoord < 0 then 1 else 0))\<rparr>
         in \<lparr>q = q newCoord + q centerVector, r = r newCoord + r centerVector\<rparr>)
      else newCoord)"

record ExitInfo =
  isWrap :: bool
  newCoord :: "HexCoord option"

text \<open>
  \<^verbatim>\<open>getExitInfo\<close> is called on the head segment; \<^verbatim>\<open>isWrapExit\<close> reads only its \<^verbatim>\<open>q\<close> and
  \<^verbatim>\<open>r\<close>, which the model passes on as a plain \<^verbatim>\<open>HexCoord\<close>.
\<close>

definition getExitInfo :: "nat \<Rightarrow> 'a HexCoord_scheme \<Rightarrow> Direction \<Rightarrow> ExitInfo" where
  "getExitInfo ix coord dir =
     (let vector = DIRECTION_VECTORS ! dirIndex dir;
          next = \<lparr>q = q coord + q vector, r = r coord + r vector\<rparr>
      in if \<not> isValidPosition next then
           (if isWrapExit ix \<lparr>q = q coord, r = r coord\<rparr> then
              \<lparr>isWrap = True, newCoord = Some (adjustToCenter (mirrorCoord ix coord))\<rparr>
            else \<lparr>isWrap = False, newCoord = None\<rparr>)
         else \<lparr>isWrap = False, newCoord = None\<rparr>)"

subsection \<open>Food placement (lines 227-244)\<close>

text \<open>
  The two nested loops of \<^verbatim>\<open>generateFood\<close>: every valid cell, and for each the sides to check,
  in that order. \<^verbatim>\<open>targetSide\<close> is \<open>None\<close> when the optional argument is left out.
\<close>

definition availablePositions :: "SnakeSegment list \<Rightarrow> int option \<Rightarrow> Food list" where
  "availablePositions snk targetSide =
     concat (map (\<lambda>cell.
        (let sidesToCheck = (case targetSide of Some t \<Rightarrow> [t] | None \<Rightarrow> [0, 1])
         in concat (map (\<lambda>sd.
              if \<not> isOnSnake cell sd snk then [\<lparr>q = q cell, r = r cell, side = sd\<rparr>] else [])
            sidesToCheck)))
       getValidHexCells)"

text \<open>
  \<open>u\<close> is the value \<^verbatim>\<open>Math.random()\<close> returns, a number with \<open>0 \<le> u < 1\<close>; for such a \<open>u\<close> the
  index is below the length. The product and its floor are taken in the reals.
\<close>

definition generateFood :: "SnakeSegment list \<Rightarrow> int option \<Rightarrow> real \<Rightarrow> Food" where
  "generateFood snk targetSide u =
     (let available = availablePositions snk targetSide
      in if length available = 0 then \<lparr>q = 0, r = 0, side = 0\<rparr>
         else available ! nat \<lfloor>u * real (length available)\<rfloor>)"

subsection \<open>The tick callback (lines 306-446)\<close>

text \<open>Lines 326-345: the heading after a wrap, by the table of the active edge pair.\<close>

definition horizontalFlip :: "nat list" where
  "horizontalFlip = [3, 2, 1, 0, 5, 4]"

definition diagonal1Flip :: "nat list" where
  "diagonal1Flip = [0, 5, 4, 3, 2, 1]"

definition diagonal2Flip :: "nat list" where
  "diagonal2Flip = [4, 3, 2, 1, 0, 5]"

definition flippedDirection :: "nat \<Rightarrow> Direction \<Rightarrow> nat" where
  "flippedDirection ix dir =
     (let activeEdgePair = WRAP_EDGE_PAIRS ! ix
      in if name activeEdgePair = ''horizontal'' then horizontalFlip ! dirIndex dir
         else if name activeEdgePair = ''diagonal1'' then diagonal1Flip ! dirIndex dir
         else diagonal2Flip ! dirIndex dir)"

text \<open>
  Lines 353-445, the part of the callback after the new head is known. \<open>u1\<close> is the random
  number drawn by the call of \<^verbatim>\<open>generateFood\<close> at line 402, \<open>u2\<close> the one drawn at line 412
  (each call is reached at most once in a tick) and \<open>now\<close> is \<^verbatim>\<open>Date.now()\<close>. Lines 373-391
  repeat the transform of lines 183-204 on the food cell; the model calls \<open>mirrorCoord\<close> for
  both. The timer that later clears \<^verbatim>\<open>eatEffect\<close> is not part of the returned state and is
  left out.
\<close>

definition tickMove ::
  "nat \<Rightarrow> real \<Rightarrow> real \<Rightarrow> int \<Rightarrow> GameState \<Rightarrow> SnakeSegment \<Rightarrow> int \<Rightarrow> bool \<Rightarrow> Direction \<Rightarrow> GameState"
where
  "tickMove ix u1 u2 now prev newHead newSide flipped newDirection =
     (if isOnSnake newHead newSide (snake prev) then prev\<lparr>gameOver := True, isPlaying := False\<rparr>
      else
        (let newSnake = newHead # snake prev;
             newCurrentSide = (if flipped then newSide else currentSide prev);
             flippedFoodCoord = mirrorCoord ix (food prev);
             newFood =
               (if flipped then
                  (if isValidPosition flippedFoodCoord then
                     \<lparr>q = q flippedFoodCoord, r = r flippedFoodCoord, side = newSide\<rparr>
                   else generateFood newSnake (Some newSide) u1)
                else food prev);
             newWrapImmunity =
               (if flipped then 1
                else if wrapImmunity prev > 0 then wrapImmunity prev - 1
                else wrapImmunity prev)
         in if isSameCoord newHead (food prev) \<and> newSide = side (food prev) then
              (let headPixel = hexToPixel (q newHead) (r newHead)
               in prev\<lparr>snake := newSnake,
                       food := generateFood newSnake None u2,
                       score := score prev + 10,
                       direction := newDirection,
                       currentSide := newCurrentSide,
                       eatEffect := Some \<lparr>x = fst headPixel, y = snd headPixel,
                                          active = True, timestamp = now\<rparr>,
                       wrapImmunity := newWrapImmunity\<rparr>)
            else
              prev\<lparr>snake := butlast newSnake,
                    food := newFood,
                    score := score prev,
                    direction := newDirection,
                    currentSide := newCurrentSide,
                    eatEffect := eatEffect prev,
                    wrapImmunity := newWrapImmunity\<rparr>))"

text \<open>
  Lines 307-351. Reading \<^verbatim>\<open>prev.snake[0]\<close> of an empty snake gives \<^verbatim>\<open>undefined\<close> and the next
  property access throws: the model returns \<open>None\<close> there.
\<close>

definition tick :: "nat \<Rightarrow> real \<Rightarrow> real \<Rightarrow> int \<Rightarrow> GameState \<Rightarrow> GameState option" where
  "tick ix u1 u2 now prev =
     (case snake prev of
        [] \<Rightarrow> None
      | head # _ \<Rightarrow>
          (let nextCoord = getNextPosition head (direction prev);
               exitInfo = getExitInfo ix head (direction prev)
           in if isWrap exitInfo \<and> newCoord exitInfo \<noteq> None then
                (let newHead = \<lparr>q = q (the (newCoord exitInfo)), r = r (the (newCoord exitInfo)),
                                side = 1 - side head\<rparr>;
                     newSide = side newHead;
                     newDirection = asDirection ((flippedDirection ix (direction prev) + 3) mod 6)
                 in Some (tickMove ix u1 u2 now prev newHead newSide True newDirection))
              else if \<not> isValidPosition nextCoord then
                Some (prev\<lparr>gameOver := True, isPlaying := False\<rparr>)
              else
                (let newHead = \<lparr>q = q nextCoord, r = r nextCoord, side = side head\<rparr>
                 in Some (tickMove ix u1 u2 now prev newHead (side head) False (direction prev)))))"

text \<open>The game loop runs the callback only while \<^verbatim>\<open>isPlaying && !gameOver\<close> (line 304).\<close>

definition running :: "GameState \<Rightarrow> bool" where
  "running s = (isPlaying s \<and> \<not> gameOver s)"

text \<open>
  The three-way branch of lines 315-351, named as the specification names it: which of the
  three continuations the callback takes for a head at \<open>cell\<close> with heading \<open>dir\<close>.
\<close>

datatype StepOutcome = Normal | Blocked | Portal HexCoord

definition classifyStep :: "nat \<Rightarrow> 'a HexCoord_scheme \<Rightarrow> Direction \<Rightarrow> StepOutcome" where
  "classifyStep ix cell dir =
     (let nextCoord = getNextPosition cell dir;
          exitInfo = getExitInfo ix cell dir
      in if isWrap exitInfo \<and> newCoord exitInfo \<noteq> None then Portal (the (newCoord exitInfo))
         else if \<not> isValidPosition nextCoord then Blocked
         else Normal)"

subsection \<open>Concrete states used as test inputs\<close>

text \<open>The snake every game starts with (lines 275-279, 483-487).\<close>

definition initialSnake :: "SnakeSegment list" where
  "initialSnake =
     [\<lparr>q = 0, r = 0, side = 0\<rparr>, \<lparr>q = - 1, r = 0, side = 0\<rparr>, \<lparr>q = - 2, r = 0, side = 0\<rparr>]"

text \<open>A running state with the given snake, food and heading and the start values elsewhere.\<close>

definition playingState :: "SnakeSegment list \<Rightarrow> Food \<Rightarrow> Direction \<Rightarrow> GameState" where
  "playingState snk fd dir =
     \<lparr>snake = snk, food = fd, direction = dir, currentSide = 0, score = 0,
      gameOver = False, isPlaying = True, eatEffect = None, wrapImmunity = 0\<rparr>"

text \<open>A snake lying on every cell of side 0 and on no cell of side 1.\<close>

definition faceZeroSnake :: "SnakeSegment list" where
  "faceZeroSnake = map (\<lambda>cell. \<lparr>q = q cell, r = r cell, side = 0\<rparr>) getValidHexCells"

text \<open>
  The scenario of the specification: the start snake heading right with the food on the cell
  in front of the head.
\<close>

definition eatingState :: GameState where
  "eatingState = playingState initialSnake \<lparr>q = 1, r = 0, side = 0\<rparr> RIGHT"

text \<open>The start snake turned back on itself, with the food under its second segment.\<close>

definition foodOnBodyState :: GameState where
  "foodOnBodyState = playingState initialSnake \<lparr>q = - 1, r = 0, side = 0\<rparr> LEFT"

text \<open>A snake whose head is on the top edge \<open>r = -15\<close>, heading out of the board.\<close>

definition blockedState :: GameState where
  "blockedState =
     playingState
       [\<lparr>q = 0, r = - 15, side = 0\<rparr>, \<lparr>q = 0, r = - 14, side = 0\<rparr>, \<lparr>q = 0, r = - 13, side = 0\<rparr>]
       \<lparr>q = 3, r = 3, side = 0\<rparr> UP_LEFT"

text \<open>A snake on three mutually adjacent cells, its head heading for the cell of its tail.\<close>

definition tailChaseState :: GameState where
  "tailChaseState =
     playingState
       [\<lparr>q = 0, r = 0, side = 0\<rparr>, \<lparr>q = 0, r = 1, side = 0\<rparr>, \<lparr>q = 1, r = 0, side = 0\<rparr>]
       \<lparr>q = 3, r = 3, side = 0\<rparr> RIGHT"

text \<open>A snake whose head is on the right edge \<open>q = 15\<close>, heading out of the board.\<close>

definition portalState :: GameState where
  "portalState =
     playingState
       [\<lparr>q = 15, r = 0, side = 0\<rparr>, \<lparr>q = 14, r = 0, side = 0\<rparr>, \<lparr>q = 13, r = 0, side = 0\<rparr>]
       \<lparr>q = 3, r = 3, side = 0\<rparr> RIGHT"

text \<open>A snake whose head is on the right edge at \<open>(15, -5)\<close>, heading out of the board.\<close>

definition edgeState :: GameState where
  "edgeState =
     playingState
       [\<lparr>q = 15, r = - 5, side = 0\<rparr>, \<lparr>q = 14, r = - 5, side = 0\<rparr>, \<lparr>q = 13, r = - 5, side = 0\<rparr>]
       \<lparr>q = 3, r = 3, side = 0\<rparr> RIGHT"

section \<open>Properties\<close>

subsection \<open>Auxiliary facts\<close>

lemma isOnSnake_coord:
  "q a = q b \<Longrightarrow> r a = r b \<Longrightarrow> isOnSnake a sd snk = isOnSnake b sd snk"
  by (simp add: isOnSnake_def isSameCoord_def)

lemma isValidPosition_coord:
  "q a = q b \<Longrightarrow> r a = r b \<Longrightarrow> isValidPosition a = isValidPosition b"
  by (simp add: isValidPosition_def)

lemma isOnSnake_last:
  "snk \<noteq> [] \<Longrightarrow> q (last snk) = q c \<Longrightarrow> r (last snk) = r c \<Longrightarrow> side (last snk) = sd
     \<Longrightarrow> isOnSnake c sd snk"
  unfolding isOnSnake_def list_ex_iff isSameCoord_def
  using last_in_set by blast

lemma mirrorCoord_cases:
  assumes "ix < 3"
  shows "mirrorCoord ix c =
           (if ix = 0 then \<lparr>q = - q c, r = r c\<rparr>
            else if ix = 1 then \<lparr>q = q c, r = - r c\<rparr>
            else \<lparr>q = - r c, r = - q c\<rparr>)"
proof -
  from assms consider "ix = 0" | "ix = 1" | "ix = 2" by linarith
  then show ?thesis
    by cases (simp_all add: mirrorCoord_def WRAP_EDGE_PAIRS_def)
qed

text \<open>The two edge predicates of each pair, written out.\<close>

lemma isWrapExit_axes:
  "isWrapExit 0 c = (q c = - 15 \<or> q c = 15)"
  "isWrapExit 1 c = (r c = 15 \<or> r c = - 15)"
  "isWrapExit 2 c = (- q c - r c = 15 \<or> - q c - r c = - 15)"
  by (simp_all add: isWrapExit_def WRAP_EDGE_PAIRS_def GRID_RADIUS_def)

text \<open>The callback, read through the three outcomes of \<open>classifyStep\<close>.\<close>

lemma tick_Cons:
  "snake s = head # rest \<Longrightarrow>
   tick ix u1 u2 now s =
     (case classifyStep ix head (direction s) of
        Portal m \<Rightarrow>
          Some (tickMove ix u1 u2 now s \<lparr>q = q m, r = r m, side = 1 - side head\<rparr>
                  (1 - side head) True
                  (asDirection ((flippedDirection ix (direction s) + 3) mod 6)))
      | Blocked \<Rightarrow> Some (s\<lparr>gameOver := True, isPlaying := False\<rparr>)
      | Normal \<Rightarrow>
          Some (tickMove ix u1 u2 now s
                  \<lparr>q = q (getNextPosition head (direction s)),
                   r = r (getNextPosition head (direction s)), side = side head\<rparr>
                  (side head) False (direction s)))"
  by (auto simp add: tick_def classifyStep_def getExitInfo_def Let_def)

lemma classifyStep_Blocked:
  "\<not> isValidPosition (getNextPosition c d) \<Longrightarrow> \<not> isWrapExit ix \<lparr>q = q c, r = r c\<rparr>
     \<Longrightarrow> classifyStep ix c d = Blocked"
  by (simp add: classifyStep_def getExitInfo_def getNextPosition_def Let_def)

lemma classifyStep_Normal:
  "isValidPosition (getNextPosition c d) \<Longrightarrow> classifyStep ix c d = Normal"
  by (simp add: classifyStep_def getExitInfo_def getNextPosition_def Let_def)

lemma tickMove_wrapImmunity:
  "(tickMove ix u1 u2 now (s\<lparr>wrapImmunity := w\<rparr>) nh ns fl nd)\<lparr>wrapImmunity := 0\<rparr>
   = (tickMove ix u1 u2 now s nh ns fl nd)\<lparr>wrapImmunity := 0\<rparr>"
  by (simp add: tickMove_def Let_def)

text \<open>The cells the two loops of \<^verbatim>\<open>getValidHexCells\<close> enumerate are the cells of the board.\<close>

lemma valid_cells_iff:
  fixes c :: HexCoord
  shows "c \<in> set getValidHexCells \<longleftrightarrow> isValidPosition c"
proof (cases c)
  case (fields a b)
  have "c \<in> set getValidHexCells \<longleftrightarrow>
          (- GRID_RADIUS \<le> a \<and> a \<le> GRID_RADIUS \<and>
           max (- GRID_RADIUS) (- a - GRID_RADIUS) \<le> b \<and>
           b \<le> min GRID_RADIUS (- a + GRID_RADIUS))"
    unfolding getValidHexCells_def fields
    by (auto simp add: Let_def intro!: bexI[where x = a])
  also have "\<dots> \<longleftrightarrow> isValidPosition c"
    unfolding isValidPosition_def fields by (simp add: abs_le_iff) linarith
  finally show ?thesis .
qed

lemma random_index_less:
  assumes "0 \<le> u" "u < 1" "0 < n"
  shows "nat \<lfloor>u * real n\<rfloor> < n"
proof -
  have "u * real n < real n" using assms by simp
  then have "\<lfloor>u * real n\<rfloor> < int n" by (simp add: floor_less_iff)
  moreover have "0 \<le> \<lfloor>u * real n\<rfloor>" using assms by simp
  ultimately show ?thesis by linarith
qed

lemma availablePositions_iff:
  "p \<in> set (availablePositions snk targetSide) \<longleftrightarrow>
     (isValidPosition p \<and> \<not> isOnSnake p (side p) snk \<and>
      (case targetSide of Some t \<Rightarrow> side p = t | None \<Rightarrow> side p = 0 \<or> side p = 1))"
proof -
  let ?c = "\<lparr>q = q p, r = r p\<rparr>"
  have on: "\<And>sd. isOnSnake ?c sd snk = isOnSnake p sd snk"
    by (rule isOnSnake_coord) simp_all
  have va: "isValidPosition ?c = isValidPosition p"
    by (rule isValidPosition_coord) simp_all
  have eq: "\<And>cell sd. (p = \<lparr>q = q cell, r = r cell, side = sd\<rparr>)
                = (q cell = q p \<and> r cell = r p \<and> sd = side p)"
    by (cases p) auto
  have cell: "\<And>cell::HexCoord. (q cell = q p \<and> r cell = r p) = (cell = ?c)"
    by auto
  show ?thesis
  proof (cases targetSide)
    case None
    have "p \<in> set (availablePositions snk None) \<longleftrightarrow>
          (\<exists>cell\<in>set getValidHexCells.
              (\<not> isOnSnake cell 0 snk \<and> p = \<lparr>q = q cell, r = r cell, side = 0\<rparr>)
            \<or> (\<not> isOnSnake cell 1 snk \<and> p = \<lparr>q = q cell, r = r cell, side = 1\<rparr>))"
      by (auto simp add: availablePositions_def Let_def split: if_splits)
    also have "\<dots> \<longleftrightarrow>
          (?c \<in> set getValidHexCells \<and> \<not> isOnSnake ?c (side p) snk \<and> (side p = 0 \<or> side p = 1))"
      unfolding eq by (metis cell)
    finally show ?thesis by (simp add: None valid_cells_iff on va)
  next
    case (Some t)
    have "p \<in> set (availablePositions snk (Some t)) \<longleftrightarrow>
          (\<exists>cell\<in>set getValidHexCells.
              \<not> isOnSnake cell t snk \<and> p = \<lparr>q = q cell, r = r cell, side = t\<rparr>)"
      by (auto simp add: availablePositions_def Let_def split: if_splits)
    also have "\<dots> \<longleftrightarrow>
          (?c \<in> set getValidHexCells \<and> \<not> isOnSnake ?c (side p) snk \<and> side p = t)"
      unfolding eq by (metis cell)
    finally show ?thesis by (simp add: Some valid_cells_iff on va)
  qed
qed

lemma generateFood_member:
  assumes "0 \<le> u" "u < 1" "availablePositions snk targetSide \<noteq> []"
  shows "generateFood snk targetSide u \<in> set (availablePositions snk targetSide)"
  using assms by (simp add: generateFood_def Let_def random_index_less)

lemma generateFood_empty:
  "availablePositions snk targetSide = [] \<Longrightarrow>
     generateFood snk targetSide u = \<lparr>q = 0, r = 0, side = 0\<rparr>"
  by (simp add: generateFood_def)

lemma faceZeroSnake_covers:
  fixes c :: "'a HexCoord_scheme"
  assumes "isValidPosition c"
  shows "isOnSnake c 0 faceZeroSnake"
proof -
  have "isValidPosition \<lparr>q = q c, r = r c\<rparr>"
    using assms by (simp add: isValidPosition_def)
  then have "\<lparr>q = q c, r = r c\<rparr> \<in> set getValidHexCells"
    by (simp add: valid_cells_iff)
  then show ?thesis
    unfolding isOnSnake_def list_ex_iff faceZeroSnake_def isSameCoord_def by force
qed

lemma faceZeroSnake_available: "availablePositions faceZeroSnake (Some 0) = []"
proof -
  have "\<And>p. p \<notin> set (availablePositions faceZeroSnake (Some 0))"
  proof
    fix p
    assume "p \<in> set (availablePositions faceZeroSnake (Some 0))"
    then have "isValidPosition p" and "\<not> isOnSnake p 0 faceZeroSnake"
      by (auto simp add: availablePositions_iff)
    then show False
      using faceZeroSnake_covers by blast
  qed
  then show ?thesis by (meson last_in_set)
qed

lemma tickMove_fatal:
  "isOnSnake nh ns (snake s) \<Longrightarrow>
     tickMove ix u1 u2 now s nh ns fl nd = s\<lparr>gameOver := True, isPlaying := False\<rparr>"
  by (simp add: tickMove_def)

lemma tickMove_eat:
  assumes "\<not> isOnSnake nh ns (snake s)" and "isSameCoord nh (food s) \<and> ns = side (food s)"
  shows "snake (tickMove ix u1 u2 now s nh ns fl nd) = nh # snake s"
    and "score (tickMove ix u1 u2 now s nh ns fl nd) = score s + 10"
    and "gameOver (tickMove ix u1 u2 now s nh ns fl nd) = gameOver s"
  using assms by (simp_all add: tickMove_def Let_def)

lemma tickMove_move:
  assumes "\<not> isOnSnake nh ns (snake s)"
    and "\<not> (isSameCoord nh (food s) \<and> ns = side (food s))"
  shows "snake (tickMove ix u1 u2 now s nh ns fl nd) = butlast (nh # snake s)"
    and "score (tickMove ix u1 u2 now s nh ns fl nd) = score s"
    and "gameOver (tickMove ix u1 u2 now s nh ns fl nd) = gameOver s"
  using assms by (auto simp add: tickMove_def Let_def)

lemma tickMove_score_length:
  assumes "snake s \<noteq> []" and "side nh = ns"
    and "\<not> gameOver (tickMove ix u1 u2 now s nh ns fl nd)"
  shows "if isSameCoord (hd (snake (tickMove ix u1 u2 now s nh ns fl nd))) (food s)
            \<and> side (hd (snake (tickMove ix u1 u2 now s nh ns fl nd))) = side (food s)
         then score (tickMove ix u1 u2 now s nh ns fl nd) = score s + 10
            \<and> length (snake (tickMove ix u1 u2 now s nh ns fl nd)) = length (snake s) + 1
         else score (tickMove ix u1 u2 now s nh ns fl nd) = score s
            \<and> length (snake (tickMove ix u1 u2 now s nh ns fl nd)) = length (snake s)"
proof -
  have free: "\<not> isOnSnake nh ns (snake s)"
    using assms(3) by (auto simp add: tickMove_fatal)
  show ?thesis
  proof (cases "isSameCoord nh (food s) \<and> ns = side (food s)")
    case True
    note e = tickMove_eat[OF free True]
    from True assms(2) show ?thesis
      unfolding e by simp
  next
    case False
    note m = tickMove_move[OF free False]
    from False assms(1,2) show ?thesis
      unfolding m by (cases "snake s") auto
  qed
qed

lemmas board_eval =
  isValidPosition_def GRID_RADIUS_def getNextPosition_def DIRECTION_VECTORS_def
  isWrapExit_def WRAP_EDGE_PAIRS_def

subsection \<open>Portal exits\<close>

text \<open>
  Claim C1 says that, for every on-board cell on an edge of the active wrap axis and every
  heading that leaves the board from it, the cell \<^verbatim>\<open>getExitInfo\<close> returns (the mirror image,
  moved one step towards the centre when it is off the board) is on the board. The code does
  not achieve this: with the horizontal edge pair, the on-board edge cell \<open>(15, -5)\<close> and heading
  \<open>RIGHT\<close>, it returns \<open>(-14, -4)\<close>, which is off the board since \<open>|q + r| = 18\<close>.
\<close>

theorem getExitInfo_portal_offboard:
  "isValidPosition \<lparr>q = 15, r = - 5\<rparr>
   \<and> isWrapExit 0 \<lparr>q = 15, r = - 5\<rparr>
   \<and> \<not> isValidPosition (getNextPosition \<lparr>q = 15, r = - 5\<rparr> RIGHT)
   \<and> getExitInfo 0 \<lparr>q = 15, r = - 5\<rparr> RIGHT
       = \<lparr>isWrap = True, newCoord = Some \<lparr>q = - 14, r = - 4\<rparr>\<rparr>
   \<and> \<not> isValidPosition \<lparr>q = - 14, r = - 4\<rparr>"
  by (simp add: getExitInfo_def mirrorCoord_def adjustToCenter_def board_eval)

text \<open>
  In a game with the horizontal pair the tick then puts the head of the snake on that cell:
  the state stays running with its head off the board, on side 1.
\<close>

lemma tick_portal_head_offboard:
  "tick 0 0 0 0 edgeState =
     Some (edgeState\<lparr>snake := [\<lparr>q = - 14, r = - 4, side = 1\<rparr>, \<lparr>q = 15, r = - 5, side = 0\<rparr>,
                                 \<lparr>q = 14, r = - 5, side = 0\<rparr>],
                      food := \<lparr>q = - 3, r = 3, side = 1\<rparr>,
                      currentSide := 1, wrapImmunity := 1\<rparr>)"
  by (simp add: edgeState_def playingState_def tick_def getExitInfo_def mirrorCoord_def
      adjustToCenter_def tickMove_def isOnSnake_def isSameCoord_def flippedDirection_def
      horizontalFlip_def asDirection_def board_eval Let_def)

text \<open>
  With the diagonal2 pair the mirror image of an on-board cell is on the board, so there the
  cell a portal returns is always a cell of the board.
\<close>

lemma diagonal2_portal_onboard:
  assumes "isValidPosition c" and "isWrap (getExitInfo 2 c dir)"
  shows "\<exists>m. newCoord (getExitInfo 2 c dir) = Some m \<and> isValidPosition m"
proof -
  have "isValidPosition (mirrorCoord 2 c)"
    using assms(1) by (auto simp add: mirrorCoord_cases isValidPosition_def)
  then have "isValidPosition (adjustToCenter (mirrorCoord 2 c))"
    by (simp add: adjustToCenter_def)
  with assms(2) show ?thesis
    by (auto simp add: getExitInfo_def Let_def split: if_splits)
qed

text \<open>
  Claim C2: \<open>classifyStep\<close> is \<open>Normal\<close> exactly when the next cell is on the board; when it is
  off the board the outcome is \<open>Portal\<close> exactly when the cell satisfies one of the two edge
  predicates of the active pair, and \<open>Blocked\<close> otherwise. The cell a \<open>Portal\<close> carries is the
  one \<^verbatim>\<open>getExitInfo\<close> computes.
\<close>

theorem classifyStep_outcomes:
  "(classifyStep ix cell dir = Normal) = isValidPosition (getNextPosition cell dir)
   \<and> ((\<exists>m. classifyStep ix cell dir = Portal m)
        = (\<not> isValidPosition (getNextPosition cell dir)
           \<and> isWrapExit ix \<lparr>q = q cell, r = r cell\<rparr>))
   \<and> ((classifyStep ix cell dir = Blocked)
        = (\<not> isValidPosition (getNextPosition cell dir)
           \<and> \<not> isWrapExit ix \<lparr>q = q cell, r = r cell\<rparr>))
   \<and> ((classifyStep ix cell dir = Portal m)
        = (\<not> isValidPosition (getNextPosition cell dir)
           \<and> isWrapExit ix \<lparr>q = q cell, r = r cell\<rparr>
           \<and> m = adjustToCenter (mirrorCoord ix cell)))"
  by (auto simp add: classifyStep_def getExitInfo_def getNextPosition_def Let_def)

text \<open>
  Claim C5: the mirror transform maps \<open>(q, r)\<close> to \<open>(-q, r)\<close> for the horizontal pair (index 0),
  to \<open>(q, -r)\<close> for diagonal1 (index 1) and to \<open>(-r, -q)\<close> for diagonal2 (index 2), for every cell.
\<close>

theorem mirrorCoord_axes:
  "mirrorCoord 0 c = \<lparr>q = - q c, r = r c\<rparr>
   \<and> mirrorCoord 1 c = \<lparr>q = q c, r = - r c\<rparr>
   \<and> mirrorCoord 2 c = \<lparr>q = - r c, r = - q c\<rparr>"
  by (simp add: mirrorCoord_def WRAP_EDGE_PAIRS_def)

text \<open>
  Claim C8: for each of the three edge pairs, applying the transform of lines 183-217 (mirror,
  then the step towards the centre) twice to a cell gives the cell back, provided neither
  application triggers the step towards the centre, that is, both mirror images are on the board.
\<close>

theorem mirror_involution:
  fixes c :: HexCoord
  assumes "ix < 3"
    and "isValidPosition (mirrorCoord ix c)"
    and "isValidPosition (mirrorCoord ix (mirrorCoord ix c))"
  shows "adjustToCenter (mirrorCoord ix (adjustToCenter (mirrorCoord ix c))) = c"
  using assms by (simp add: adjustToCenter_def mirrorCoord_cases)

theorem mirror_involution_witness:
  "(2::nat) < 3
   \<and> isValidPosition (mirrorCoord 2 \<lparr>q = 3, r = - 7\<rparr>)
   \<and> isValidPosition (mirrorCoord 2 (mirrorCoord 2 \<lparr>q = 3, r = - 7\<rparr>))
   \<and> adjustToCenter (mirrorCoord 2 (adjustToCenter (mirrorCoord 2 \<lparr>q = 3, r = - 7\<rparr>)))
       = \<lparr>q = 3, r = - 7\<rparr>"
  using mirror_involution[of 2 "\<lparr>q = 3, r = - 7\<rparr>"]
  by (simp add: mirrorCoord_def WRAP_EDGE_PAIRS_def isValidPosition_def GRID_RADIUS_def)

subsection \<open>Heading reflection\<close>

text \<open>
  Claim C4 says that each of the three heading tables is a permutation of \<open>{0..5}\<close> and that
  reflection followed by inversion, \<open>d \<mapsto> (table[d] + 3) mod 6\<close>, has no fixed point. The second
  part fails for the horizontal table: heading 0 is mapped to itself.
\<close>

theorem horizontalFlip_fixed_point:
  "(horizontalFlip ! 0 + 3) mod 6 = 0"
  by (simp add: horizontalFlip_def)

text \<open>
  Claim C4 as amended: each of the three tables is a permutation of \<open>{0..5}\<close>; reflection followed
  by inversion has no fixed point for diagonal1 and diagonal2, and for horizontal it fixes
  exactly the headings 0 and 3 and no other.
\<close>

theorem flip_tables:
  "distinct horizontalFlip \<and> set horizontalFlip = {0, 1, 2, 3, 4, 5}
   \<and> distinct diagonal1Flip \<and> set diagonal1Flip = {0, 1, 2, 3, 4, 5}
   \<and> distinct diagonal2Flip \<and> set diagonal2Flip = {0, 1, 2, 3, 4, 5}
   \<and> map (\<lambda>d. (horizontalFlip ! d + 3) mod 6) [0, 1, 2, 3, 4, 5] = [0, 5, 4, 3, 2, 1]
   \<and> map (\<lambda>d. (diagonal1Flip ! d + 3) mod 6) [0, 1, 2, 3, 4, 5] = [3, 2, 1, 0, 5, 4]
   \<and> map (\<lambda>d. (diagonal2Flip ! d + 3) mod 6) [0, 1, 2, 3, 4, 5] = [1, 0, 5, 4, 3, 2]
   \<and> filter (\<lambda>d. (horizontalFlip ! d + 3) mod 6 = d) [0, 1, 2, 3, 4, 5] = [0, 3]
   \<and> filter (\<lambda>d. (diagonal1Flip ! d + 3) mod 6 = d) [0, 1, 2, 3, 4, 5] = []
   \<and> filter (\<lambda>d. (diagonal2Flip ! d + 3) mod 6 = d) [0, 1, 2, 3, 4, 5] = []"
  by (auto simp add: horizontalFlip_def diagonal1Flip_def diagonal2Flip_def)

subsection \<open>The tick transition\<close>

text \<open>
  Claim C6: for every running state whose head's next cell is off the board and whose head cell
  is not a portal cell of the active edge pair, the tick returns the state with lifecycle over
  (\<open>gameOver\<close> set, \<open>isPlaying\<close> cleared) and every other field as it was before the tick.
\<close>

theorem tick_blocked:
  assumes "running s" and "snake s = head # rest"
    and "\<not> isValidPosition (getNextPosition head (direction s))"
    and "\<not> isWrapExit ix \<lparr>q = q head, r = r head\<rparr>"
  shows "tick ix u1 u2 now s = Some (s\<lparr>gameOver := True, isPlaying := False\<rparr>)"
  using assms by (simp add: tick_Cons classifyStep_Blocked)

theorem tick_blocked_witness:
  "running blockedState
   \<and> snake blockedState
       = \<lparr>q = 0, r = - 15, side = 0\<rparr> # [\<lparr>q = 0, r = - 14, side = 0\<rparr>, \<lparr>q = 0, r = - 13, side = 0\<rparr>]
   \<and> \<not> isValidPosition (getNextPosition \<lparr>q = 0, r = - 15, side = 0\<rparr> (direction blockedState))
   \<and> \<not> isWrapExit 0 \<lparr>q = 0, r = - 15\<rparr>
   \<and> tick 0 0 0 0 blockedState = Some (blockedState\<lparr>gameOver := True, isPlaying := False\<rparr>)"
  using tick_blocked[of blockedState "\<lparr>q = 0, r = - 15, side = 0\<rparr>"
      "[\<lparr>q = 0, r = - 14, side = 0\<rparr>, \<lparr>q = 0, r = - 13, side = 0\<rparr>]" 0 0 0 0]
  by (simp add: running_def blockedState_def playingState_def board_eval)

text \<open>
  Claim C10: for every running state in which the head's next cell is on the board and is the
  cell and side of the snake's last segment, the tick returns the state with lifecycle over:
  the collision test looks at the whole snake before the move, the tail included.
\<close>

theorem tick_tail_collision:
  assumes "running s" and "snake s = head # rest"
    and "isValidPosition (getNextPosition head (direction s))"
    and "q (last (snake s)) = q (getNextPosition head (direction s))"
    and "r (last (snake s)) = r (getNextPosition head (direction s))"
    and "side (last (snake s)) = side head"
  shows "tick ix u1 u2 now s = Some (s\<lparr>gameOver := True, isPlaying := False\<rparr>)"
proof -
  let ?newHead = "\<lparr>q = q (getNextPosition head (direction s)),
                   r = r (getNextPosition head (direction s)), side = side head\<rparr>"
  have "isOnSnake ?newHead (side head) (snake s)"
    using assms by (intro isOnSnake_last) simp_all
  then show ?thesis
    using assms(2,3) by (simp add: tick_Cons classifyStep_Normal tickMove_fatal)
qed

theorem tick_tail_collision_witness:
  "running tailChaseState
   \<and> snake tailChaseState
       = \<lparr>q = 0, r = 0, side = 0\<rparr> # [\<lparr>q = 0, r = 1, side = 0\<rparr>, \<lparr>q = 1, r = 0, side = 0\<rparr>]
   \<and> isValidPosition (getNextPosition \<lparr>q = 0, r = 0, side = 0\<rparr> (direction tailChaseState))
   \<and> q (last (snake tailChaseState))
       = q (getNextPosition \<lparr>q = 0, r = 0, side = 0\<rparr> (direction tailChaseState))
   \<and> r (last (snake tailChaseState))
       = r (getNextPosition \<lparr>q = 0, r = 0, side = 0\<rparr> (direction tailChaseState))
   \<and> side (last (snake tailChaseState)) = 0
   \<and> tick 1 0 0 0 tailChaseState = Some (tailChaseState\<lparr>gameOver := True, isPlaying := False\<rparr>)"
  using tick_tail_collision[of tailChaseState "\<lparr>q = 0, r = 0, side = 0\<rparr>"
      "[\<lparr>q = 0, r = 1, side = 0\<rparr>, \<lparr>q = 1, r = 0, side = 0\<rparr>]" 1 0 0 0]
  by (simp add: running_def tailChaseState_def playingState_def board_eval)

text \<open>
  Claim C3 says that, for every running state, a tick whose new head coincides with the food's
  cell and side yields \<open>score + 10\<close> and a snake one segment longer. The collision test comes
  before the eating test, so this fails when the food lies under the snake's body: in
  \<open>foodOnBodyState\<close> the next cell of the head is on the board and is the food's cell, the
  tick ends the game, and score and length stay as they were.
\<close>

theorem tick_food_on_body:
  "running foodOnBodyState
   \<and> classifyStep 0 (hd (snake foodOnBodyState)) (direction foodOnBodyState) = Normal
   \<and> isSameCoord (getNextPosition (hd (snake foodOnBodyState)) (direction foodOnBodyState))
        (food foodOnBodyState)
   \<and> side (hd (snake foodOnBodyState)) = side (food foodOnBodyState)
   \<and> tick 0 0 0 0 foodOnBodyState = Some (foodOnBodyState\<lparr>gameOver := True, isPlaying := False\<rparr>)
   \<and> score (foodOnBodyState\<lparr>gameOver := True, isPlaying := False\<rparr>) \<noteq> score foodOnBodyState + 10
   \<and> length (snake (foodOnBodyState\<lparr>gameOver := True, isPlaying := False\<rparr>))
        \<noteq> length (snake foodOnBodyState) + 1"
  by (simp add: running_def foodOnBodyState_def playingState_def initialSnake_def tick_def
      classifyStep_def getExitInfo_def tickMove_def isOnSnake_def isSameCoord_def board_eval Let_def)

text \<open>
  Claim C3 as amended: for every running state and every tick that does not end the game, if
  the new head (the head of the snake after the tick) coincides with the cell and side of the
  food before the tick, then the score grows by 10 and the snake by one segment; otherwise
  score and length are unchanged.
\<close>

theorem tick_score_length:
  assumes "running s" and "tick ix u1 u2 now s = Some s'" and "\<not> gameOver s'"
  shows "if isSameCoord (hd (snake s')) (food s) \<and> side (hd (snake s')) = side (food s)
         then score s' = score s + 10 \<and> length (snake s') = length (snake s) + 1
         else score s' = score s \<and> length (snake s') = length (snake s)"
proof (cases "snake s")
  case Nil
  with assms(2) show ?thesis by (simp add: tick_def)
next
  case (Cons head rest)
  then have ne: "snake s \<noteq> []" by simp
  show ?thesis
  proof (cases "classifyStep ix head (direction s)")
    case Normal
    with assms(2) Cons have
      "s' = tickMove ix u1 u2 now s
              \<lparr>q = q (getNextPosition head (direction s)),
               r = r (getNextPosition head (direction s)), side = side head\<rparr>
              (side head) False (direction s)"
      by (simp add: tick_Cons)
    with assms(3) show ?thesis
      using tickMove_score_length[OF ne] by simp
  next
    case Blocked
    with assms(2,3) Cons show ?thesis by (auto simp add: tick_Cons)
  next
    case (Portal m)
    with assms(2) Cons have
      "s' = tickMove ix u1 u2 now s \<lparr>q = q m, r = r m, side = 1 - side head\<rparr>
              (1 - side head) True
              (asDirection ((flippedDirection ix (direction s) + 3) mod 6))"
      by (simp add: tick_Cons)
    with assms(3) show ?thesis
      using tickMove_score_length[OF ne] by simp
  qed
qed

theorem tick_score_length_witness:
  "running eatingState
   \<and> tick 0 0 0 0 eatingState
       = Some (tickMove 0 0 0 0 eatingState \<lparr>q = 1, r = 0, side = 0\<rparr> 0 False RIGHT)
   \<and> \<not> gameOver (tickMove 0 0 0 0 eatingState \<lparr>q = 1, r = 0, side = 0\<rparr> 0 False RIGHT)
   \<and> score (tickMove 0 0 0 0 eatingState \<lparr>q = 1, r = 0, side = 0\<rparr> 0 False RIGHT) = 10
   \<and> length (snake (tickMove 0 0 0 0 eatingState \<lparr>q = 1, r = 0, side = 0\<rparr> 0 False RIGHT)) = 4"
proof -
  let ?t = "tickMove 0 0 0 0 eatingState \<lparr>q = 1, r = 0, side = 0\<rparr> 0 False RIGHT"
  have r: "running eatingState"
    by (simp add: running_def eatingState_def playingState_def)
  have c: "classifyStep 0 \<lparr>q = 0, r = 0, side = 0\<rparr> RIGHT = Normal"
    by (rule classifyStep_Normal) (simp add: board_eval)
  have t: "tick 0 0 0 0 eatingState = Some ?t"
    using c
    by (simp add: tick_Cons[where head = "\<lparr>q = 0, r = 0, side = 0\<rparr>" and rest = "tl initialSnake"]
        eatingState_def playingState_def initialSnake_def getNextPosition_def
        DIRECTION_VECTORS_def)
  have g: "\<not> gameOver ?t"
    by (simp add: tickMove_def eatingState_def playingState_def initialSnake_def isOnSnake_def
        isSameCoord_def Let_def)
  have h: "hd (snake ?t) = \<lparr>q = 1, r = 0, side = 0\<rparr>"
    by (simp add: tickMove_def eatingState_def playingState_def initialSnake_def isOnSnake_def
        isSameCoord_def Let_def)
  have f: "food eatingState = \<lparr>q = 1, r = 0, side = 0\<rparr>" "score eatingState = 0"
    "length (snake eatingState) = 3"
    by (simp_all add: eatingState_def playingState_def initialSnake_def)
  show ?thesis
    using tick_score_length[OF r t g] r t g unfolding h f by (simp add: isSameCoord_def)
qed

text \<open>
  Claim C9: take two running states that differ only in \<open>wrapImmunity\<close> (0 against 1, or any
  two values) and run the tick with the same random numbers and clock. Either both ticks throw,
  or both return, and then the two results agree on every field other than \<open>wrapImmunity\<close>:
  the counter changes neither the wall collision, nor the self collision, the wrap or the eating.
\<close>

theorem tick_ignores_wrapImmunity:
  assumes "running s1" and "s2 = s1\<lparr>wrapImmunity := w\<rparr>"
  shows "rel_option
           (\<lambda>t1 t2. snake t1 = snake t2 \<and> food t1 = food t2 \<and> direction t1 = direction t2
               \<and> currentSide t1 = currentSide t2 \<and> score t1 = score t2
               \<and> gameOver t1 = gameOver t2 \<and> isPlaying t1 = isPlaying t2
               \<and> eatEffect t1 = eatEffect t2)
           (tick ix u1 u2 now s1) (tick ix u1 u2 now s2)"
proof -
  have fields: "\<And>a b :: GameState. a\<lparr>wrapImmunity := 0\<rparr> = b\<lparr>wrapImmunity := 0\<rparr> \<Longrightarrow>
      snake a = snake b \<and> food a = food b \<and> direction a = direction b
      \<and> currentSide a = currentSide b \<and> score a = score b
      \<and> gameOver a = gameOver b \<and> isPlaying a = isPlaying b \<and> eatEffect a = eatEffect b"
  proof -
    fix a b :: GameState
    assume "a\<lparr>wrapImmunity := 0\<rparr> = b\<lparr>wrapImmunity := 0\<rparr>"
    then show "snake a = snake b \<and> food a = food b \<and> direction a = direction b
      \<and> currentSide a = currentSide b \<and> score a = score b
      \<and> gameOver a = gameOver b \<and> isPlaying a = isPlaying b \<and> eatEffect a = eatEffect b"
      by (cases a, cases b) simp
  qed
  show ?thesis
  proof (cases "snake s1")
    case Nil
    with assms(2) show ?thesis by (simp add: tick_def)
  next
    case (Cons head rest)
    then have c2: "snake (s1\<lparr>wrapImmunity := w\<rparr>) = head # rest" by simp
    note t1 = tick_Cons[OF Cons, of ix u1 u2 now]
    note t2 = tick_Cons[OF c2, of ix u1 u2 now]
    show ?thesis
    proof (cases "classifyStep ix head (direction s1)")
      case Normal
      then show ?thesis
        unfolding assms(2) t1 t2
        by (simp add: fields[OF tickMove_wrapImmunity[symmetric]])
    next
      case Blocked
      then show ?thesis
        unfolding assms(2) t1 t2 by simp
    next
      case (Portal m)
      then show ?thesis
        unfolding assms(2) t1 t2
        by (simp add: fields[OF tickMove_wrapImmunity[symmetric]])
    qed
  qed
qed

theorem tick_ignores_wrapImmunity_witness:
  "running portalState
   \<and> wrapImmunity portalState = 0
   \<and> rel_option
        (\<lambda>t1 t2. snake t1 = snake t2 \<and> food t1 = food t2 \<and> direction t1 = direction t2
            \<and> currentSide t1 = currentSide t2 \<and> score t1 = score t2
            \<and> gameOver t1 = gameOver t2 \<and> isPlaying t1 = isPlaying t2
            \<and> eatEffect t1 = eatEffect t2)
        (tick 0 0 0 0 portalState) (tick 0 0 0 0 (portalState\<lparr>wrapImmunity := 1\<rparr>))"
  using tick_ignores_wrapImmunity[of portalState "portalState\<lparr>wrapImmunity := 1\<rparr>" 1 0 0 0 0]
  by (simp add: running_def portalState_def playingState_def)

subsection \<open>Food placement\<close>

text \<open>
  Claim C7 says that \<^verbatim>\<open>generateFood\<close> never returns an occupied cell and side for any snake
  that does not cover every on-board cell on both sides, calls with a \<^verbatim>\<open>targetSide\<close>
  included. A call restricted to a side only enumerates that side: \<open>faceZeroSnake\<close> covers
  side 0 and leaves side 1 free (its origin, for one), and the call restricted to side 0 returns
  the fallback, the origin on side 0, which the snake occupies.
\<close>

theorem generateFood_restricted_occupied:
  "isValidPosition \<lparr>q = 0, r = 0\<rparr>
   \<and> \<not> isOnSnake \<lparr>q = 0, r = 0\<rparr> 1 faceZeroSnake
   \<and> generateFood faceZeroSnake (Some 0) (1 / 2) = \<lparr>q = 0, r = 0, side = 0\<rparr>
   \<and> isOnSnake (generateFood faceZeroSnake (Some 0) (1 / 2))
        (side (generateFood faceZeroSnake (Some 0) (1 / 2))) faceZeroSnake"
proof -
  have a: "isValidPosition \<lparr>q = 0, r = 0\<rparr>"
    by (simp add: isValidPosition_def GRID_RADIUS_def)
  have b: "\<not> isOnSnake \<lparr>q = 0, r = 0\<rparr> 1 faceZeroSnake"
    by (simp add: isOnSnake_def list_ex_iff faceZeroSnake_def)
  have g: "generateFood faceZeroSnake (Some 0) (1 / 2) = \<lparr>q = 0, r = 0, side = 0\<rparr>"
    by (simp add: generateFood_empty faceZeroSnake_available)
  have "isValidPosition \<lparr>q = 0, r = 0, side = 0\<rparr>"
    by (simp add: isValidPosition_def GRID_RADIUS_def)
  then have "isOnSnake \<lparr>q = 0, r = 0, side = 0\<rparr> 0 faceZeroSnake"
    by (rule faceZeroSnake_covers)
  with a b g show ?thesis by simp
qed

text \<open>
  Claim C7 as amended: whenever the snake leaves free an on-board cell on a side the call
  enumerates (side 0 or 1 for a call without \<^verbatim>\<open>targetSide\<close>, the side \<^verbatim>\<open>targetSide\<close> for a call
  with it), and \<open>u\<close> is a value of \<^verbatim>\<open>Math.random()\<close>, \<^verbatim>\<open>generateFood\<close> returns one of the
  candidates it collected: an on-board cell on an enumerated side that the snake does not
  occupy. So the fallback branch is taken only when the candidate list is empty.
\<close>

theorem generateFood_unoccupied:
  fixes cell :: HexCoord
  assumes "0 \<le> u" and "u < 1"
    and "isValidPosition cell" and "\<not> isOnSnake cell face snk"
    and "case targetSide of Some t \<Rightarrow> face = t | None \<Rightarrow> face = 0 \<or> face = 1"
  shows "generateFood snk targetSide u \<in> set (availablePositions snk targetSide)
     \<and> isValidPosition (generateFood snk targetSide u)
     \<and> \<not> isOnSnake (generateFood snk targetSide u) (side (generateFood snk targetSide u)) snk
     \<and> (case targetSide of
          Some t \<Rightarrow> side (generateFood snk targetSide u) = t
        | None \<Rightarrow> side (generateFood snk targetSide u) = 0
                   \<or> side (generateFood snk targetSide u) = 1)"
proof -
  let ?p = "\<lparr>q = q cell, r = r cell, side = face\<rparr>"
  have "isValidPosition ?p" and "\<not> isOnSnake ?p (side ?p) snk"
    using assms(3,4) by (simp_all add: isValidPosition_def isOnSnake_def isSameCoord_def)
  then have "?p \<in> set (availablePositions snk targetSide)"
    using assms(5) by (simp add: availablePositions_iff split: option.splits)
  then have "availablePositions snk targetSide \<noteq> []" by auto
  with assms(1,2)
  have "generateFood snk targetSide u \<in> set (availablePositions snk targetSide)"
    by (rule generateFood_member)
  then show ?thesis using availablePositions_iff by blast
qed

theorem generateFood_unoccupied_witness:
  "(0::real) \<le> 1 / 2 \<and> (1 / 2 :: real) < 1
   \<and> isValidPosition \<lparr>q = 1, r = 0\<rparr>
   \<and> \<not> isOnSnake \<lparr>q = 1, r = 0\<rparr> 1 initialSnake
   \<and> generateFood initialSnake (Some 1) (1 / 2) \<in> set (availablePositions initialSnake (Some 1))
   \<and> isValidPosition (generateFood initialSnake (Some 1) (1 / 2))
   \<and> \<not> isOnSnake (generateFood initialSnake (Some 1) (1 / 2))
         (side (generateFood initialSnake (Some 1) (1 / 2))) initialSnake
   \<and> side (generateFood initialSnake (Some 1) (1 / 2)) = 1"
  using generateFood_unoccupied[of "1 / 2" "\<lparr>q = 1, r = 0\<rparr>" 1 initialSnake "Some 1"]
  by (simp add: isValidPosition_def GRID_RADIUS_def isOnSnake_def isSameCoord_def
      initialSnake_def)

end
